theory Spec2Isabelle
  imports Main "HOL-Library.Sublist"
begin

section \<open>Values of the host language\<close>

text \<open>
  The module \<^verbatim>\<open>src/lib/index.mjs\<close> works on JavaScript strings, on \<^verbatim>\<open>URL\<close> objects and on
  option bags. A string is a \<^typ>\<open>string\<close> (the development is about ASCII text, where a
  \<^typ>\<open>char\<close> is one code unit). A location argument is either a string or a \<^verbatim>\<open>URL\<close> object,
  kept with its \<^verbatim>\<open>href\<close>. An argument that may be left out is \<open>Undefined\<close>, \<open>Null\<close> or
  \<open>Given\<close> an object: a default parameter (\<^verbatim>\<open>opts = {}\<close>) replaces \<open>Undefined\<close> only.
\<close>

datatype loc = Str string | URL string

fun toString :: "loc \<Rightarrow> string" where
  "toString (Str s) = s"
| "toString (URL href) = href"

datatype 'a arg = Undefined | Null | Given 'a

text \<open>The two quote characters, which a string literal of this theory cannot hold.\<close>

abbreviation dq :: char where "dq \<equiv> CHR 0x22"
abbreviation sq :: char where "sq \<equiv> CHR 0x27"

text \<open>
  A thrown value is an \<^verbatim>\<open>Error\<close> object: its \<^verbatim>\<open>name\<close>, \<^verbatim>\<open>message\<close>, optional \<^verbatim>\<open>code\<close> and
  \<^verbatim>\<open>stack\<close>. A function that may throw returns \<open>js_error + 'a\<close>, \<open>Inl\<close> being the throw.
\<close>

record js_error =
  err_name :: string
  err_message :: string
  err_code :: "string option"
  err_stack :: string

text \<open>The option bag of the resolution and evaluation functions.\<close>

record opts =
  opt_url :: "loc option"
  opt_conditions :: "string list option"
  opt_extensions :: "string list option"

definition no_opts :: opts where
  "no_opts = \<lparr>opt_url = None, opt_conditions = None, opt_extensions = None\<rparr>"

text \<open>The default parameter \<^verbatim>\<open>opts = {}\<close>, for an argument that is not \<^verbatim>\<open>null\<close>.\<close>

definition default_opts :: "opts arg \<Rightarrow> opts" where
  "default_opts oa = (case oa of Given g \<Rightarrow> g | _ \<Rightarrow> no_opts)"

text \<open>
  What the module imports from the platform (\<^verbatim>\<open>url\<close>, \<^verbatim>\<open>fs\<close>, \<^verbatim>\<open>module\<close>,
  \<^verbatim>\<open>import-meta-resolve\<close>, dynamic \<^verbatim>\<open>import()\<close>) is a parameter of every definition below.
  \<open>moduleResolve\<close> returns the \<^verbatim>\<open>href\<close> of the \<^verbatim>\<open>URL\<close> it resolves to; \<open>callFrames\<close> is the text
  the engine appends to the first line of a new error's stack.
\<close>

record 'ns host =
  moduleResolve :: "string \<Rightarrow> loc \<Rightarrow> string set \<Rightarrow> js_error + string"
  builtinModules :: "string list"
  cwd :: string
  pathToFileURL :: "string \<Rightarrow> string"
  url_fileURLToPath :: "loc \<Rightarrow> js_error + string"
  realpathSync :: "string \<Rightarrow> js_error + string"
  readFile :: "string \<Rightarrow> js_error + string"
  dynamic_import :: "string \<Rightarrow> js_error + 'ns"
  callFrames :: string

text \<open>\<^verbatim>\<open>Error.prototype.toString\<close>, which \<^verbatim>\<open>new Error(err)\<close> and template strings apply.\<close>

definition error_toString :: "js_error \<Rightarrow> string" where
  "error_toString e =
     (if err_name e = [] then err_message e
      else if err_message e = [] then err_name e
      else err_name e @ '': '' @ err_message e)"

definition new_Error :: "'ns host \<Rightarrow> string \<Rightarrow> js_error" where
  "new_Error h msg =
     \<lparr>err_name = ''Error'', err_message = msg, err_code = None,
      err_stack = (if msg = [] then ''Error'' else ''Error: '' @ msg) @ callFrames h\<rparr>"

text \<open>Reading a property of \<^verbatim>\<open>undefined\<close> or \<^verbatim>\<open>null\<close> throws a \<^verbatim>\<open>TypeError\<close>.\<close>

definition property_TypeError :: "'ns host \<Rightarrow> string \<Rightarrow> string \<Rightarrow> js_error" where
  "property_TypeError h what prop =
     (let msg = ''Cannot read properties of '' @ what @ '' (reading '' @ [sq] @ prop @ [sq] @ '')''
      in \<lparr>err_name = ''TypeError'', err_message = msg, err_code = None,
          err_stack = ''TypeError: '' @ msg @ callFrames h\<rparr>)"

section \<open>Regular expressions\<close>

text \<open>
  The patterns the module uses, as syntax trees, and a backtracking matcher for them. A
  cursor is the text before the current position (reversed) and the text after it.
  \<open>ends r z\<close> lists, in the order a backtracking engine tries them, the cursors where
  a match of \<open>r\<close> that starts at \<open>z\<close> can end: the head is the match the engine
  reports. A starred pattern tries one more round first (greedy) and gives up a round
  that consumed nothing.
\<close>

datatype re =
    Eps
  | Chr char
  | Dot
  | OneOf "char list"
  | NoneOf "char list"
  | WhiteSpace
  | Seq re re
  | Or re re
  | Star re
  | Plus re
  | Group re
  | LookBehind re
  | LookAhead re

type_synonym cursor = "string \<times> string"

definition step :: "(char \<Rightarrow> bool) \<Rightarrow> cursor \<Rightarrow> cursor list" where
  "step P z = (case snd z of [] \<Rightarrow> [] | x # xs \<Rightarrow> if P x then [(x # fst z, xs)] else [])"

fun iter :: "(cursor \<Rightarrow> cursor list) \<Rightarrow> nat \<Rightarrow> cursor \<Rightarrow> cursor list" where
  "iter f 0 z = [z]"
| "iter f (Suc n) z =
     concat (map (iter f n) (filter (\<lambda>z'. length (snd z') < length (snd z)) (f z))) @ [z]"

definition rewind :: "nat \<Rightarrow> cursor \<Rightarrow> cursor" where
  "rewind k z = (drop k (fst z), rev (take k (fst z)) @ snd z)"

definition line_terminator :: "char \<Rightarrow> bool" where
  "line_terminator x = (x = CHR 0x0A \<or> x = CHR 0x0D)"

definition white_space :: "char list" where
  "white_space = [CHR '' '', CHR 0x09, CHR 0x0A, CHR 0x0B, CHR 0x0C, CHR 0x0D]"

primrec ends :: "re \<Rightarrow> cursor \<Rightarrow> cursor list" where
  "ends Eps z = [z]"
| "ends (Chr c) z = step (\<lambda>x. x = c) z"
| "ends Dot z = step (\<lambda>x. \<not> line_terminator x) z"
| "ends (OneOf cs) z = step (\<lambda>x. x \<in> set cs) z"
| "ends (NoneOf cs) z = step (\<lambda>x. x \<notin> set cs) z"
| "ends WhiteSpace z = step (\<lambda>x. x \<in> set white_space) z"
| "ends (Seq a b) z = concat (map (ends b) (ends a z))"
| "ends (Or a b) z = ends a z @ ends b z"
| "ends (Star a) z = iter (ends a) (length (snd z)) z"
| "ends (Plus a) z = concat (map (\<lambda>z'. iter (ends a) (length (snd z')) z') (ends a z))"
| "ends (Group a) z = ends a z"
| "ends (LookBehind a) z =
     (if list_ex (\<lambda>k. z \<in> set (ends a (rewind k z))) [0..<Suc (length (fst z))] then [z] else [])"
| "ends (LookAhead a) z = (if ends a z = [] then [] else [z])"

text \<open>A run of literal characters.\<close>

definition lit :: "string \<Rightarrow> re" where
  "lit s = foldr (\<lambda>c r. Seq (Chr c) r) s Eps"

text \<open>
  \<open>search r b a\<close> is \<^verbatim>\<open>exec\<close> from the cursor \<open>(b, a)\<close>: the leftmost position at or after it
  where \<open>r\<close> matches, with the cursor where that match ends.
\<close>

fun search :: "re \<Rightarrow> string \<Rightarrow> string \<Rightarrow> (cursor \<times> cursor) option" where
  "search r b [] = (case ends r (b, []) of [] \<Rightarrow> None | z # _ \<Rightarrow> Some ((b, []), z))"
| "search r b (x # xs) =
     (case ends r (b, x # xs) of [] \<Rightarrow> search r (x # b) xs | z # _ \<Rightarrow> Some ((b, x # xs), z))"

text \<open>\<^verbatim>\<open>re.test(s)\<close> for a pattern without the global flag.\<close>

definition test :: "re \<Rightarrow> string \<Rightarrow> bool" where
  "test r s = (search r [] s \<noteq> None)"

text \<open>A sequence and a choice of several patterns.\<close>

definition cat :: "re list \<Rightarrow> re" where
  "cat rs = foldr Seq rs Eps"

fun alternatives :: "re list \<Rightarrow> re" where
  "alternatives [] = Eps"
| "alternatives [r] = r"
| "alternatives (r # rs) = Or r (alternatives rs)"

text \<open>
  A pattern with the global flag is applied from left to right: \<^verbatim>\<open>matchAll\<close> and
  \<^verbatim>\<open>replace\<close> look for the next match at or after the end of the previous one, and step
  over one character after an empty match. \<open>segments\<close> cuts the text that way, into the
  characters no match covers and the matches, each with the text before it (reversed) and
  the text after it.
\<close>

datatype segment = Other char | Matched string string string

function segments :: "re \<Rightarrow> string \<Rightarrow> string \<Rightarrow> segment list" where
  "segments r b [] = (case ends r (b, []) of [] \<Rightarrow> [] | z # _ \<Rightarrow> [Matched [] b []])"
| "segments r b (x # xs) =
     (case ends r (b, x # xs) of
        [] \<Rightarrow> Other x # segments r (x # b) xs
      | z # _ \<Rightarrow>
          (let n = length (x # xs) - length (snd z); m = take n (x # xs) in
           if n = 0 then Matched [] b (x # xs) # Other x # segments r (x # b) xs
           else Matched m b (drop n (x # xs)) # segments r (rev m @ b) (drop n (x # xs))))"
  by pat_completeness auto
termination
  by (relation "measure (\<lambda>(r, b, a). length a)") auto

definition matchAll :: "re \<Rightarrow> string \<Rightarrow> string list" where
  "matchAll r s = concat (map (\<lambda>g. case g of Other c \<Rightarrow> [] | Matched m b a \<Rightarrow> [m]) (segments r [] s))"

definition replace_fn :: "re \<Rightarrow> string \<Rightarrow> (string \<Rightarrow> string) \<Rightarrow> string" where
  "replace_fn r s f = concat (map (\<lambda>g. case g of Other c \<Rightarrow> [c] | Matched m b a \<Rightarrow> f m) (segments r [] s))"

text \<open>
  A replacement string is a template: \<^verbatim>\<open>$$\<close> is a dollar, \<^verbatim>\<open>$&\<close> the match, \<^verbatim>\<open>$`\<close> the text
  before it and \<^verbatim>\<open>$'\<close> the text after it. The patterns that are given a replacement string
  here have no capture group, so that \<^verbatim>\<open>$1\<close> and the like stand for themselves.
\<close>

fun substitute :: "string \<Rightarrow> string \<Rightarrow> string \<Rightarrow> string \<Rightarrow> string" where
  "substitute [] m p s = []"
| "substitute [c] m p s = [c]"
| "substitute (c # d # t) m p s =
     (if c \<noteq> CHR ''$'' then c # substitute (d # t) m p s
      else if d = CHR ''$'' then CHR ''$'' # substitute t m p s
      else if d = CHR ''&'' then m @ substitute t m p s
      else if d = CHR 0x60 then p @ substitute t m p s
      else if d = sq then s @ substitute t m p s
      else CHR ''$'' # substitute (d # t) m p s)"

definition replace_str :: "re \<Rightarrow> string \<Rightarrow> string \<Rightarrow> string" where
  "replace_str r s template =
     concat (map (\<lambda>g. case g of Other c \<Rightarrow> [c] | Matched m b a \<Rightarrow> substitute template m (rev b) a)
       (segments r [] s))"

text \<open>
  \<^verbatim>\<open>new RegExp(src, 'g')\<close> reads a pattern from a string. The part of the syntax that is
  modelled: a character that is not a syntax character stands for itself, a dot is any
  character but a line terminator, \<^verbatim>\<open>+\<close> repeats the term before it once or more (greedy),
  parentheses group and \<^verbatim>\<open>|\<close> separates alternatives. A \<^verbatim>\<open>+\<close> with nothing to repeat and
  an unbalanced parenthesis are syntax errors. A source with any other syntax character
  (the backslash and \<^verbatim>\<open>^ $ * ? [ ] { }\<close>) is \<open>Unmodelled\<close>: the functions below then return \<open>None\<close>,
  nothing being said about such a run.
\<close>

datatype regexp_new = Pattern re | SyntaxError string | Unmodelled

definition unmodelled_syntax :: "char list" where
  "unmodelled_syntax = [CHR 0x5C, CHR ''^'', CHR ''$'', CHR ''*'', CHR ''?'', CHR ''['', CHR '']'', CHR ''{'', CHR ''}'']"

type_synonym frame = "re list \<times> re list"

definition close_frame :: "frame \<Rightarrow> re" where
  "close_frame f = alternatives (rev (cat (rev (snd f)) # fst f))"

fun parse :: "string \<Rightarrow> frame \<Rightarrow> frame list \<Rightarrow> regexp_new" where
  "parse [] cur stack = (if stack = [] then Pattern (close_frame cur) else SyntaxError ''Unterminated group'')"
| "parse (c # cs) cur stack =
     (if c = CHR ''('' then parse cs ([], []) (cur # stack)
      else if c = CHR '')'' then
        (case stack of
           [] \<Rightarrow> SyntaxError ''Unmatched )''
         | up # stack' \<Rightarrow> parse cs (fst up, Group (close_frame cur) # snd up) stack')
      else if c = CHR ''|'' then parse cs (cat (rev (snd cur)) # fst cur, []) stack
      else if c = CHR ''+'' then
        (case snd cur of
           [] \<Rightarrow> SyntaxError ''Nothing to repeat''
         | Plus t # ts \<Rightarrow> SyntaxError ''Nothing to repeat''
         | t # ts \<Rightarrow> parse cs (fst cur, Plus t # ts) stack)
      else if c = CHR ''.'' then parse cs (fst cur, Dot # snd cur) stack
      else parse cs (fst cur, Chr c # snd cur) stack)"

definition RegExp_new :: "string \<Rightarrow> regexp_new" where
  "RegExp_new src =
     (if list_ex (\<lambda>c. c \<in> set unmodelled_syntax) src then Unmodelled else parse src ([], []) [])"

section \<open>Location codec\<close>

text \<open>\<^verbatim>\<open>str.replace(/\\/g, '/')\<close>: every backslash becomes a slash.\<close>

definition normalizeSlash :: "string \<Rightarrow> string" where
  "normalizeSlash str = map (\<lambda>c. if c = CHR 0x5C then CHR ''/'' else c) str"

text \<open>\<^verbatim>\<open>/(node|data|http|https|file):/\<close>\<close>

definition PROTOCOL_FILE_RE :: re where
  "PROTOCOL_FILE_RE =
     Seq (Group (Or (lit ''node'') (Or (lit ''data'') (Or (lit ''http'') (Or (lit ''https'') (lit ''file''))))))
         (Chr CHR '':'')"

fun fileURLToPath :: "'ns host \<Rightarrow> loc \<Rightarrow> js_error + string" where
  "fileURLToPath h (Str s) =
     (if \<not> prefix ''file://'' s then Inr (normalizeSlash s)
      else (case url_fileURLToPath h (Str s) of Inl err \<Rightarrow> Inl err | Inr p \<Rightarrow> Inr (normalizeSlash p)))"
| "fileURLToPath h (URL u) =
     (case url_fileURLToPath h (URL u) of Inl err \<Rightarrow> Inl err | Inr p \<Rightarrow> Inr (normalizeSlash p))"

definition normalizeid :: "'ns host \<Rightarrow> loc \<Rightarrow> string" where
  "normalizeid h l =
     (let mid = toString l in
      if test PROTOCOL_FILE_RE mid then mid
      else if mid \<in> set (builtinModules h) then ''node:'' @ mid
      else ''file://'' @ normalizeSlash mid)"

section \<open>Resolver\<close>

definition DEFAULT_CONDITIONS_SET :: "string set" where
  "DEFAULT_CONDITIONS_SET = set [''node'', ''import'']"

definition DEFAULT_URL :: "'ns host \<Rightarrow> loc" where
  "DEFAULT_URL h = URL (pathToFileURL h (cwd h))"

definition DEFAULT_EXTENSIONS :: "string list" where
  "DEFAULT_EXTENSIONS = [''.mjs'', ''.cjs'', ''.js'', ''.json'']"

definition NOT_FOUND_ERRORS :: "string list" where
  "NOT_FOUND_ERRORS = [''ERR_MODULE_NOT_FOUND'', ''ERR_UNSUPPORTED_DIR_IMPORT'', ''MODULE_NOT_FOUND'']"

text \<open>\<^verbatim>\<open>/(node|data|http|https):/\<close>\<close>

definition PROTOCOL_RE :: re where
  "PROTOCOL_RE =
     Seq (Group (Or (lit ''node'') (Or (lit ''data'') (Or (lit ''http'') (lit ''https'')))))
         (Chr CHR '':'')"

text \<open>
  \<^verbatim>\<open>_tryModuleResolve\<close> (an Isabelle name cannot start with an underscore: \<open>u_\<close> stands
  for it). \<open>Inr None\<close> is the \<^verbatim>\<open>null\<close> it returns on a not-found error.
\<close>

definition u_tryModuleResolve ::
  "'ns host \<Rightarrow> string \<Rightarrow> loc \<Rightarrow> string set \<Rightarrow> js_error + string option" where
  "u_tryModuleResolve h mid url conditions =
     (case moduleResolve h mid url conditions of
        Inr r \<Rightarrow> Inr (Some r)
      | Inl err \<Rightarrow>
          (case err_code err of
             None \<Rightarrow> Inl err
           | Some c \<Rightarrow> if c \<notin> set NOT_FOUND_ERRORS then Inl err else Inr None))"

text \<open>
  The resolver's functions return, beside their result, the specifiers they passed to
  \<open>moduleResolve\<close>, in call order. The inner loop over the extensions and the outer
  loop over the two prefixes:
\<close>

fun try_extensions ::
  "'ns host \<Rightarrow> string \<Rightarrow> string \<Rightarrow> loc \<Rightarrow> string set \<Rightarrow> string list
     \<Rightarrow> string list \<times> (js_error + string option)" where
  "try_extensions h mid pfx url conditions [] = ([], Inr None)"
| "try_extensions h mid pfx url conditions (ext # exts) =
     (case u_tryModuleResolve h (mid @ pfx @ ext) url conditions of
        Inl err \<Rightarrow> ([mid @ pfx @ ext], Inl err)
      | Inr (Some r) \<Rightarrow> ([mid @ pfx @ ext], Inr (Some r))
      | Inr None \<Rightarrow>
          (case try_extensions h mid pfx url conditions exts of
             (tried, res) \<Rightarrow> ((mid @ pfx @ ext) # tried, res)))"

fun try_prefixes ::
  "'ns host \<Rightarrow> string \<Rightarrow> loc \<Rightarrow> string set \<Rightarrow> string list \<Rightarrow> string list
     \<Rightarrow> string list \<times> (js_error + string option)" where
  "try_prefixes h mid url conditions exts [] = ([], Inr None)"
| "try_prefixes h mid url conditions exts (pfx # pfxs) =
     (case try_extensions h mid pfx url conditions exts of
        (tried, Inl err) \<Rightarrow> (tried, Inl err)
      | (tried, Inr (Some r)) \<Rightarrow> (tried, Inr (Some r))
      | (tried, Inr None) \<Rightarrow>
          (case try_prefixes h mid url conditions exts pfxs of
             (tried', res) \<Rightarrow> (tried @ tried', res)))"

text \<open>Lines 59 and 60: the defaults of the conditions and of the base location.\<close>

definition conditionsSet_of :: "opts \<Rightarrow> string set" where
  "conditionsSet_of opts =
     (case opt_conditions opts of Some cs \<Rightarrow> set cs | None \<Rightarrow> DEFAULT_CONDITIONS_SET)"

definition truthy_loc :: "loc option \<Rightarrow> bool" where
  "truthy_loc v = (case v of None \<Rightarrow> False | Some (Str s) \<Rightarrow> s \<noteq> [] | Some (URL u) \<Rightarrow> True)"

definition url_of :: "'ns host \<Rightarrow> opts \<Rightarrow> loc" where
  "url_of h opts =
     (case opt_url opts of
        Some l \<Rightarrow> if truthy_loc (Some l) then Str (normalizeid h l) else DEFAULT_URL h
      | None \<Rightarrow> DEFAULT_URL h)"

definition extensions_of :: "opts \<Rightarrow> string list" where
  "extensions_of opts = (case opt_extensions opts of Some es \<Rightarrow> es | None \<Rightarrow> DEFAULT_EXTENSIONS)"

text \<open>Lines 77 to 81: the error of a specifier nothing resolved.\<close>

definition not_found_error :: "'ns host \<Rightarrow> string \<Rightarrow> loc \<Rightarrow> js_error" where
  "not_found_error h mid url =
     (new_Error h (''Cannot find module '' @ mid @ '' imported from '' @ toString url))
       \<lparr>err_code := Some ''ERR_MODULE_NOT_FOUND''\<rparr>"

text \<open>Lines 84 and 85: the real path of what was resolved, as a file URL.\<close>

definition realPath_url :: "'ns host \<Rightarrow> string \<Rightarrow> js_error + string" where
  "realPath_url h resolved =
     (case fileURLToPath h (URL resolved) of
        Inl err \<Rightarrow> Inl err
      | Inr p \<Rightarrow>
          (case realpathSync h p of
             Inl err \<Rightarrow> Inl err
           | Inr realPath \<Rightarrow> Inr (pathToFileURL h realPath)))"

definition u_resolve :: "'ns host \<Rightarrow> string \<Rightarrow> opts arg \<Rightarrow> string list \<times> (js_error + string)" where
  "u_resolve h mid oa =
     (if test PROTOCOL_RE mid then ([], Inr mid)
      else if mid \<in> set (builtinModules h) then ([], Inr (''node:'' @ mid))
      else
        (case oa of
           Null \<Rightarrow> ([], Inl (property_TypeError h ''null'' ''conditions''))
         | _ \<Rightarrow>
             (let opts = default_opts oa;
                  conditionsSet = conditionsSet_of opts;
                  url = url_of h opts
              in case u_tryModuleResolve h mid url conditionsSet of
                   Inl err \<Rightarrow> ([mid], Inl err)
                 | Inr (Some r) \<Rightarrow> ([mid], realPath_url h r)
                 | Inr None \<Rightarrow>
                     (case try_prefixes h mid url conditionsSet (extensions_of opts) ['''', ''/index''] of
                        (tried, Inl err) \<Rightarrow> (mid # tried, Inl err)
                      | (tried, Inr (Some r)) \<Rightarrow> (mid # tried, realPath_url h r)
                      | (tried, Inr None) \<Rightarrow> (mid # tried, Inl (not_found_error h mid url))))))"

definition resolveSync :: "'ns host \<Rightarrow> string \<Rightarrow> opts arg \<Rightarrow> string list \<times> (js_error + string)" where
  "resolveSync h mid oa = u_resolve h mid oa"


section \<open>Promises and the asynchronous call shapes\<close>

text \<open>
  A call either returns a value or throws; a promise is settled as fulfilled or rejected.
  \<^verbatim>\<open>_pcall\<close> calls the synchronous function on the arguments inside \<^verbatim>\<open>try\<close>; a throw and a
  rejection both end in \<^verbatim>\<open>_perr\<close>.
\<close>

datatype 'a promise = Fulfilled 'a | Rejected js_error

datatype 'a completion = Returns 'a | Throws js_error

definition u_perr :: "'ns host \<Rightarrow> js_error \<Rightarrow> 'a promise completion" where
  "u_perr h e = Returns (Rejected ((new_Error h (error_toString e))\<lparr>err_code := err_code e\<rparr>))"

definition u_pcall :: "'ns host \<Rightarrow> ('x \<Rightarrow> js_error + 'a) \<Rightarrow> 'x \<Rightarrow> 'a promise completion" where
  "u_pcall h fn args = (case fn args of Inr v \<Rightarrow> Returns (Fulfilled v) | Inl err \<Rightarrow> u_perr h err)"

definition resolve :: "'ns host \<Rightarrow> string \<Rightarrow> opts arg \<Rightarrow> string promise completion" where
  "resolve h mid oa = u_pcall h (\<lambda>(mid, oa). snd (resolveSync h mid oa)) (mid, oa)"


section \<open>Evaluate\<close>

text \<open>
  \<^verbatim>\<open>ESM_IMPORT_RE\<close>: four alternatives, each a look-behind for the text that introduces a
  specifier, the specifier (one or more characters that are no quote) and a look-ahead for
  the closing quote.
\<close>

definition quote :: re where "quote = OneOf [sq, dq]"
definition not_quote :: re where "not_quote = NoneOf [sq, dq]"

definition ESM_IMPORT_RE :: re where
  "ESM_IMPORT_RE = alternatives
     [cat [LookBehind (cat [lit ''import '', Star Dot, lit '' from '', quote]),
           Group (Plus not_quote), LookAhead quote],
      cat [LookBehind (cat [lit ''export '', Star Dot, lit '' from '', quote]),
           Group (Plus not_quote), LookAhead quote],
      cat [LookBehind (cat [lit ''import'', Star WhiteSpace, quote]),
           Group (Plus not_quote), LookAhead quote],
      cat [LookBehind (cat [lit ''import'', Star WhiteSpace, Chr CHR ''('', quote]),
           Group (Plus not_quote), LookAhead (cat [quote, Chr CHR '')''])]]"

text \<open>\<^verbatim>\<open>/import\.meta\.url/\<close>\<close>

definition IMPORT_META_URL_RE :: re where
  "IMPORT_META_URL_RE = lit ''import.meta.url''"

text \<open>\<^verbatim>\<open>Buffer.from(code).toString('base64')\<close>, three bytes to four digits, padded.\<close>

definition b64_alphabet :: string where
  "b64_alphabet = ''ABCDEFGHIJKLMNOPQRSTUVWXYZabcdefghijklmnopqrstuvwxyz0123456789+/''"

definition b64 :: "nat \<Rightarrow> char" where
  "b64 n = b64_alphabet ! n"

fun base64 :: "string \<Rightarrow> string" where
  "base64 [] = []"
| "base64 [a] =
     (let x = of_char a :: nat in [b64 (x div 4), b64 (x mod 4 * 16), CHR ''='', CHR ''=''])"
| "base64 [a, b] =
     (let x = of_char a :: nat; y = of_char b :: nat
      in [b64 (x div 4), b64 (x mod 4 * 16 + y div 16), b64 (y mod 16 * 4), CHR ''=''])"
| "base64 (a # b # c # rest) =
     (let x = of_char a :: nat; y = of_char b :: nat; z = of_char c :: nat
      in [b64 (x div 4), b64 (x mod 4 * 16 + y div 16), b64 (y mod 16 * 4 + z div 64), b64 (z mod 64)]
           @ base64 rest)"

definition toDataURL :: "string \<Rightarrow> string" where
  "toDataURL code = ''data:text/javascript;base64,'' @ base64 code"

text \<open>The errors the engine throws in these functions.\<close>

definition regexp_SyntaxError :: "'ns host \<Rightarrow> string \<Rightarrow> string \<Rightarrow> js_error" where
  "regexp_SyntaxError h src why =
     (let msg = ''Invalid regular expression: /'' @ src @ ''/: '' @ why
      in \<lparr>err_name = ''SyntaxError'', err_message = msg, err_code = None,
          err_stack = ''SyntaxError: '' @ msg @ callFrames h\<rparr>)"

definition not_a_function_TypeError :: "'ns host \<Rightarrow> string \<Rightarrow> js_error" where
  "not_a_function_TypeError h what =
     (let msg = what @ '' is not a function''
      in \<lparr>err_name = ''TypeError'', err_message = msg, err_code = None,
          err_stack = ''TypeError: '' @ msg @ callFrames h\<rparr>)"

definition loadURL :: "'ns host \<Rightarrow> string \<Rightarrow> string promise" where
  "loadURL h url =
     (case fileURLToPath h (Str url) of
        Inl err \<Rightarrow> Rejected err
      | Inr p \<Rightarrow> (case readFile h p of Inl err \<Rightarrow> Rejected err | Inr code \<Rightarrow> Fulfilled code))"

text \<open>\<^verbatim>\<open>Array.from(new Set(imports))\<close> keeps the first occurrence of each specifier.\<close>

fun uniq :: "string list \<Rightarrow> string list" where
  "uniq [] = []"
| "uniq (x # xs) = x # uniq (filter (\<lambda>y. y \<noteq> x) xs)"

fun join :: "string \<Rightarrow> string list \<Rightarrow> string" where
  "join sep [] = []"
| "join sep [x] = x"
| "join sep (x # xs) = x @ sep @ join sep xs"

text \<open>
  \<^verbatim>\<open>Promise.all\<close> over the unique specifiers. Every callback runs \<open>resolve\<close> at once, in
  list order, and a rejected resolution rejects the whole before any file is read: the
  first one in list order is the reason. The files of the \<^verbatim>\<open>.json\<close> targets are read after
  that (\<open>inline_json\<close>); they are taken to complete in list order.
\<close>

fun first_rejection :: "(string \<times> string promise completion) list \<Rightarrow> js_error option" where
  "first_rejection [] = None"
| "first_rejection ((mid, Returns (Fulfilled url)) # rest) = first_rejection rest"
| "first_rejection ((mid, Returns (Rejected err)) # rest) = Some err"
| "first_rejection ((mid, Throws err) # rest) = Some err"

fun fulfilled :: "(string \<times> string promise completion) list \<Rightarrow> (string \<times> string) list" where
  "fulfilled [] = []"
| "fulfilled ((mid, Returns (Fulfilled url)) # rest) = (mid, url) # fulfilled rest"
| "fulfilled (_ # rest) = fulfilled rest"

text \<open>
  \<^verbatim>\<open>opts.url && opts.url.endsWith('.json')\<close> for a string: the guard of the first step of
  \<open>transformModule\<close>. (On a \<^verbatim>\<open>URL\<close> object the method does not exist and the call throws.)
\<close>

definition json_shortcut :: "opts arg \<Rightarrow> bool" where
  "json_shortcut oa =
     (case oa of
        Given opts \<Rightarrow> (case opt_url opts of Some (Str s) \<Rightarrow> s \<noteq> [] \<and> suffix ''.json'' s | _ \<Rightarrow> False)
      | _ \<Rightarrow> False)"

text \<open>
  \<open>transformModule\<close> and \<open>resolveImports\<close> call each other: \<open>resolveImports\<close> transforms
  the text of a \<^verbatim>\<open>.json\<close> target, which ends at once in the first step of
  \<open>transformModule\<close>. Both are \<^verbatim>\<open>async\<close>: whatever they throw rejects their promise.
\<close>

function transformModule :: "'ns host \<Rightarrow> string \<Rightarrow> opts arg \<Rightarrow> string promise option"
  and resolveImports :: "'ns host \<Rightarrow> string \<Rightarrow> opts arg \<Rightarrow> string promise option"
  and inline_json :: "'ns host \<Rightarrow> (string \<times> string) list \<Rightarrow> (js_error + (string \<times> string) list) option"
where
  "transformModule h code oa =
     (case oa of
        Undefined \<Rightarrow> Some (Rejected (property_TypeError h ''undefined'' ''url''))
      | Null \<Rightarrow> Some (Rejected (property_TypeError h ''null'' ''url''))
      | Given opts \<Rightarrow>
          (case opt_url opts of
             Some (URL u) \<Rightarrow> Some (Rejected (not_a_function_TypeError h ''opts.url.endsWith''))
           | _ \<Rightarrow>
               if json_shortcut oa then Some (Fulfilled (''export default '' @ code))
               else
                 (case resolveImports h code oa of
                    None \<Rightarrow> None
                  | Some (Rejected err) \<Rightarrow> Some (Rejected err)
                  | Some (Fulfilled code') \<Rightarrow>
                      (case opt_url opts of
                         Some l \<Rightarrow>
                           if truthy_loc (Some l)
                           then Some (Fulfilled (replace_str IMPORT_META_URL_RE code' ([sq] @ toString l @ [sq])))
                           else Some (Fulfilled code')
                       | None \<Rightarrow> Some (Fulfilled code')))))"
| "resolveImports h code oa =
     (let imports = matchAll ESM_IMPORT_RE code in
      if imports = [] then Some (Fulfilled code)
      else
        (let uniqueImports = uniq imports;
             urls = map (\<lambda>mid. (mid, resolve h mid oa)) uniqueImports
         in case first_rejection urls of
              Some err \<Rightarrow> Some (Rejected err)
            | None \<Rightarrow>
                (case inline_json h (fulfilled urls) of
                   None \<Rightarrow> None
                 | Some (Inl err) \<Rightarrow> Some (Rejected err)
                 | Some (Inr resolved) \<Rightarrow>
                     (let src = join ''|'' (map (\<lambda>i. ''('' @ i @ '')'') uniqueImports)
                      in case RegExp_new src of
                           Unmodelled \<Rightarrow> None
                         | SyntaxError why \<Rightarrow> Some (Rejected (regexp_SyntaxError h src why))
                         | Pattern re \<Rightarrow>
                             Some (Fulfilled (replace_fn re code
                               (\<lambda>mid. case map_of resolved mid of Some url \<Rightarrow> url | None \<Rightarrow> ''undefined'')))))))"
| "inline_json h [] = Some (Inr [])"
| "inline_json h ((mid, url) # rest) =
     (if suffix ''.json'' url then
        (case loadURL h url of
           Rejected err \<Rightarrow> Some (Inl err)
         | Fulfilled code \<Rightarrow>
             (case transformModule h code (Given \<lparr>opt_url = Some (Str url), opt_conditions = None, opt_extensions = None\<rparr>) of
                None \<Rightarrow> None
              | Some (Rejected err) \<Rightarrow> Some (Inl err)
              | Some (Fulfilled code') \<Rightarrow>
                  (case inline_json h rest of
                     None \<Rightarrow> None
                   | Some (Inl err) \<Rightarrow> Some (Inl err)
                   | Some (Inr resolved) \<Rightarrow> Some (Inr ((mid, toDataURL code') # resolved)))))
      else
        (case inline_json h rest of
           None \<Rightarrow> None
         | Some (Inl err) \<Rightarrow> Some (Inl err)
         | Some (Inr resolved) \<Rightarrow> Some (Inr ((mid, url) # resolved))))"
  by pat_completeness auto
termination
  by (relation "measures
        [\<lambda>x. case x of
                Inl (h, code, oa) \<Rightarrow> if json_shortcut oa then 0 else 3
              | Inr (Inl (h, code, oa)) \<Rightarrow> 2
              | Inr (Inr (h, l)) \<Rightarrow> 1,
         \<lambda>x. case x of Inr (Inr (h, l)) \<Rightarrow> length l | _ \<Rightarrow> 0]")
     (auto simp: json_shortcut_def)

text \<open>\<^verbatim>\<open>opts.url || placeholder\<close>, as a string.\<close>

definition url_or :: "opts \<Rightarrow> string \<Rightarrow> string" where
  "url_or opts placeholder =
     (case opt_url opts of
        Some l \<Rightarrow> if truthy_loc (Some l) then toString l else placeholder
      | None \<Rightarrow> placeholder)"

definition evalModule :: "'ns host \<Rightarrow> string \<Rightarrow> opts arg \<Rightarrow> 'ns promise option" where
  "evalModule h code oa =
     (let opts_arg = (case oa of Undefined \<Rightarrow> Given no_opts | _ \<Rightarrow> oa) in
      case transformModule h code opts_arg of
        None \<Rightarrow> None
      | Some (Rejected err) \<Rightarrow> Some (Rejected err)
      | Some (Fulfilled transformed) \<Rightarrow>
          (let dataURL = toDataURL transformed in
           case dynamic_import h dataURL of
             Inr ns \<Rightarrow> Some (Fulfilled ns)
           | Inl err \<Rightarrow>
               (case RegExp_new dataURL of
                  Unmodelled \<Rightarrow> None
                | SyntaxError why \<Rightarrow> Some (Rejected (regexp_SyntaxError h dataURL why))
                | Pattern re \<Rightarrow>
                    Some (Rejected (err\<lparr>err_stack :=
                      replace_str re (err_stack err) (url_or (default_opts opts_arg) ''_mlly_eval_.mjs'')\<rparr>)))))"

definition loadModule :: "'ns host \<Rightarrow> string \<Rightarrow> opts arg \<Rightarrow> 'ns promise option" where
  "loadModule h mid oa =
     (let opts_arg = (case oa of Undefined \<Rightarrow> Given no_opts | _ \<Rightarrow> oa) in
      case resolve h mid opts_arg of
        Throws err \<Rightarrow> Some (Rejected err)
      | Returns (Rejected err) \<Rightarrow> Some (Rejected err)
      | Returns (Fulfilled url) \<Rightarrow>
          (case loadURL h url of
             Rejected err \<Rightarrow> Some (Rejected err)
           | Fulfilled code \<Rightarrow> evalModule h code (Given ((default_opts opts_arg)\<lparr>opt_url := Some (Str url)\<rparr>))))"

section \<open>Vocabulary of the statements\<close>

text \<open>
  A soft miss is an attempt that \<^verbatim>\<open>_tryModuleResolve\<close> answers with \<^verbatim>\<open>null\<close>. \<open>scan\<close> is a
  plain left-to-right search through a list of specifiers, stopping at the first that
  is not a soft miss; the loops of the resolver are compared with it.
\<close>

definition soft_miss :: "'ns host \<Rightarrow> opts \<Rightarrow> string \<Rightarrow> bool" where
  "soft_miss h opts c = (u_tryModuleResolve h c (url_of h opts) (conditionsSet_of opts) = Inr None)"

fun scan ::
  "'ns host \<Rightarrow> loc \<Rightarrow> string set \<Rightarrow> string list \<Rightarrow> string list \<times> (js_error + string option)" where
  "scan h url cs [] = ([], Inr None)"
| "scan h url cs (c # rest) =
     (case u_tryModuleResolve h c url cs of
        Inl err \<Rightarrow> ([c], Inl err)
      | Inr (Some r) \<Rightarrow> ([c], Inr (Some r))
      | Inr None \<Rightarrow> (case scan h url cs rest of (tried, res) \<Rightarrow> (c # tried, res)))"

section \<open>An example host\<close>

text \<open>
  A small platform to run the definitions on: a table of what \<open>moduleResolve\<close> answers
  for a specifier (anything else is a module-not-found error), a table of file contents,
  and what a dynamic import does. Paths are their own real paths, and a file URL is
  \<^verbatim>\<open>file://\<close> before the path.
\<close>

definition host_error :: "string \<Rightarrow> string option \<Rightarrow> string \<Rightarrow> js_error" where
  "host_error nm c msg = \<lparr>err_name = nm, err_message = msg, err_code = c, err_stack = nm @ '': '' @ msg\<rparr>"

definition example_host ::
  "(string \<times> (js_error + string)) list \<Rightarrow> (string \<times> string) list \<Rightarrow> (string \<Rightarrow> js_error + unit)
     \<Rightarrow> unit host" where
  "example_host modules files run =
     \<lparr>moduleResolve = (\<lambda>mid url conditions.
        case map_of modules mid of
          Some r \<Rightarrow> r
        | None \<Rightarrow> Inl (host_error ''Error'' (Some ''ERR_MODULE_NOT_FOUND'') (''Cannot find module '' @ mid))),
      builtinModules = [''fs'', ''path'', ''url'', ''node:test''],
      cwd = ''/proj'',
      pathToFileURL = (\<lambda>p. ''file://'' @ p),
      url_fileURLToPath = (\<lambda>l. Inr (drop 7 (toString l))),
      realpathSync = (\<lambda>p. Inr p),
      readFile = (\<lambda>p.
        case map_of files p of
          Some text \<Rightarrow> Inr text
        | None \<Rightarrow> Inl (host_error ''Error'' (Some ''ENOENT'') (''no such file or directory, open '' @ p))),
      dynamic_import = run,
      callFrames = []\<rparr>"

text \<open>
  The project of the examples: \<^verbatim>\<open>./x.json\<close> and \<^verbatim>\<open>./x/index.js\<close> exist, and resolving
  \<^verbatim>\<open>./locked.cjs\<close> fails with a permission error.
\<close>

definition x_host :: "unit host" where
  "x_host = example_host
     [(''./x.json'', Inr ''file:///proj/x.json''), (''./x/index.js'', Inr ''file:///proj/x/index.js''),
      (''./locked.cjs'', Inl (host_error ''Error'' (Some ''EACCES'') ''permission denied''))]
     [] (\<lambda>u. Inr ())"

text \<open>
  A source with one import, \<^verbatim>\<open>import "http://h/a.js";f("http://h/a-js")\<close>, whose second
  string is no specifier.
\<close>

definition rewrite_example :: string where
  "rewrite_example = ''import '' @ [dq] @ ''http://h/a.js'' @ [dq] @ '';f('' @ [dq] @ ''http://h/a-js'' @ [dq] @ '')''"

text \<open>
  A module that throws when it runs, \<^verbatim>\<open>if (2>1) throw new Error("boom")\<close>, and a host whose
  dynamic import fails with that error, the stack naming the imported URL.
\<close>

definition boom_example :: string where
  "boom_example = ''if (2>1) throw new Error('' @ [dq] @ ''boom'' @ [dq] @ '')''"

definition boom_host :: "unit host" where
  "boom_host = example_host [] []
     (\<lambda>u. Inl \<lparr>err_name = ''Error'', err_message = ''boom'', err_code = None,
               err_stack = ''Error: boom'' @ [CHR 0x0A] @ ''    at '' @ u @ '':1:16''\<rparr>)"

section \<open>Facts about the matcher\<close>

lemma ends_lit:
  "ends (lit s) (b, a) = (if prefix s a then [(rev s @ b, drop (length s) a)] else [])"
proof (induction s arbitrary: a b)
  case Nil
  then show ?case by (simp add: lit_def)
next
  case (Cons c s)
  have "lit (c # s) = Seq (Chr c) (lit s)" by (simp add: lit_def)
  then show ?case using Cons
    by (cases a) (auto simp: step_def)
qed

text \<open>
  The fuel of a starred pattern is the length of the text that is left. It never runs
  out: every round consumes a character, and more fuel gives the same list. A match
  moves the cursor and leaves the text as it is.
\<close>

lemma iter_more_fuel:
  "length (snd z) \<le> n \<Longrightarrow> iter f (Suc n) z = iter f n z"
proof (induction n arbitrary: z)
  case 0
  then show ?case by simp
next
  case (Suc n)
  let ?F = "filter (\<lambda>z'. length (snd z') < length (snd z)) (f z)"
  have eq: "map (iter f (Suc n)) ?F = map (iter f n) ?F"
  proof (rule map_cong[OF refl])
    fix z' assume "z' \<in> set ?F"
    then have "length (snd z') \<le> n" using Suc.prems by simp
    then show "iter f (Suc n) z' = iter f n z'" by (rule Suc.IH)
  qed
  have L: "iter f (Suc (Suc n)) z = concat (map (iter f (Suc n)) ?F) @ [z]" by (rule iter.simps(2))
  have R: "iter f (Suc n) z = concat (map (iter f n) ?F) @ [z]" by (rule iter.simps(2))
  show ?case unfolding L R eq ..
qed

lemma iter_enough_fuel:
  "length (snd z) \<le> n \<Longrightarrow> iter f n z = iter f (length (snd z)) z"
proof (induction "n - length (snd z)" arbitrary: n)
  case 0
  then show ?case by simp
next
  case (Suc d)
  then obtain m where n: "n = Suc m" and le: "length (snd z) \<le> m" by (cases n) auto
  from Suc have "d = m - length (snd z)" using n by simp
  from Suc.hyps(1)[OF this le] iter_more_fuel[OF le, of f] show ?case unfolding n by simp
qed

lemma iter_text:
  assumes f: "\<And>z z'. z' \<in> set (f z) \<Longrightarrow> rev (fst z') @ snd z' = rev (fst z) @ snd z"
  shows "z' \<in> set (iter f n z) \<Longrightarrow> rev (fst z') @ snd z' = rev (fst z) @ snd z"
proof (induction n arbitrary: z)
  case 0
  then show ?case by simp
next
  case (Suc n)
  from Suc.prems consider "z' = z"
    | z'' where "z'' \<in> set (f z)" and "z' \<in> set (iter f n z'')"
    by auto
  then show ?case
  proof cases
    case 1
    then show ?thesis by simp
  next
    case 2
    from Suc.IH[OF 2(2)] f[OF 2(1)] show ?thesis by simp
  qed
qed

lemma ends_text:
  "z' \<in> set (ends r z) \<Longrightarrow> rev (fst z') @ snd z' = rev (fst z) @ snd z"
proof (induction r arbitrary: z z')
  case (Seq a b)
  then obtain z'' where "z'' \<in> set (ends a z)" and "z' \<in> set (ends b z'')" by auto
  with Seq.IH show ?case by metis
next
  case (Star a)
  from iter_text[of "ends a", OF Star.IH] Star.prems show ?case by simp
next
  case (Plus a)
  then obtain z'' where 1: "z'' \<in> set (ends a z)"
    and 2: "z' \<in> set (iter (ends a) (length (snd z'')) z'')" by auto
  from iter_text[of "ends a", OF Plus.IH 2] Plus.IH[OF 1] show ?case by simp
qed (auto simp: step_def split: list.splits if_splits)

lemma search_None_iff:
  "search r b a = None \<longleftrightarrow> (\<forall>pre suf. a = pre @ suf \<longrightarrow> ends r (rev pre @ b, suf) = [])"
proof (induction a arbitrary: b)
  case Nil
  then show ?case by (auto split: list.splits)
next
  case (Cons x xs)
  show ?case
  proof (cases "ends r (b, x # xs)")
    case Nil
    have "search r b (x # xs) = None \<longleftrightarrow> search r (x # b) xs = None"
      using Nil by simp
    also have "\<dots> \<longleftrightarrow> (\<forall>pre suf. xs = pre @ suf \<longrightarrow> ends r (rev pre @ x # b, suf) = [])"
      by (rule Cons.IH)
    also have "\<dots> \<longleftrightarrow> (\<forall>pre suf. x # xs = pre @ suf \<longrightarrow> ends r (rev pre @ b, suf) = [])"
    proof
      assume A: "\<forall>pre suf. xs = pre @ suf \<longrightarrow> ends r (rev pre @ x # b, suf) = []"
      show "\<forall>pre suf. x # xs = pre @ suf \<longrightarrow> ends r (rev pre @ b, suf) = []"
      proof (intro allI impI)
        fix pre suf assume E: "x # xs = pre @ suf"
        show "ends r (rev pre @ b, suf) = []"
        proof (cases pre)
          case Nil
          with E \<open>ends r (b, x # xs) = []\<close> show ?thesis by simp
        next
          case (Cons y ys)
          with E have "xs = ys @ suf" "y = x" by auto
          with A Cons show ?thesis by auto
        qed
      qed
    next
      assume B: "\<forall>pre suf. x # xs = pre @ suf \<longrightarrow> ends r (rev pre @ b, suf) = []"
      show "\<forall>pre suf. xs = pre @ suf \<longrightarrow> ends r (rev pre @ x # b, suf) = []"
      proof (intro allI impI)
        fix pre suf assume "xs = pre @ suf"
        then have "x # xs = (x # pre) @ suf" by simp
        from B[rule_format, OF this] show "ends r (rev pre @ x # b, suf) = []" by simp
      qed
    qed
    finally show ?thesis .
  next
    case (Cons z zs)
    then have "search r b (x # xs) \<noteq> None" by simp
    moreover have "\<not> (\<forall>pre suf. x # xs = pre @ suf \<longrightarrow> ends r (rev pre @ b, suf) = [])"
    proof
      assume "\<forall>pre suf. x # xs = pre @ suf \<longrightarrow> ends r (rev pre @ b, suf) = []"
      then have "ends r (rev [] @ b, x # xs) = []" by blast
      with Cons show False by simp
    qed
    ultimately show ?thesis by blast
  qed
qed

lemma test_iff: "test r s \<longleftrightarrow> (\<exists>pre suf. s = pre @ suf \<and> ends r (rev pre, suf) \<noteq> [])"
  unfolding test_def using search_None_iff[of r "[]" s] by auto

lemma ends_PROTOCOL_RE:
  "ends PROTOCOL_RE (b, a) \<noteq> [] \<longleftrightarrow>
     prefix ''node:'' a \<or> prefix ''data:'' a \<or> prefix ''http:'' a \<or> prefix ''https:'' a"
  by (auto simp: PROTOCOL_RE_def ends_lit step_def prefix_def split: list.splits if_splits)

lemma test_PROTOCOL_RE:
  "test PROTOCOL_RE s \<longleftrightarrow> (\<exists>p \<in> set [''node:'', ''data:'', ''http:'', ''https:'']. sublist p s)"
  unfolding test_iff ends_PROTOCOL_RE sublist_def prefix_def
  by (auto, metis+)

lemma ends_PROTOCOL_FILE_RE:
  "ends PROTOCOL_FILE_RE (b, a) \<noteq> [] \<longleftrightarrow>
     prefix ''node:'' a \<or> prefix ''data:'' a \<or> prefix ''http:'' a \<or> prefix ''https:'' a
       \<or> prefix ''file:'' a"
  by (auto simp: PROTOCOL_FILE_RE_def ends_lit step_def prefix_def split: list.splits if_splits)

lemma test_PROTOCOL_FILE_RE:
  "test PROTOCOL_FILE_RE s \<longleftrightarrow>
     (\<exists>p \<in> set [''node:'', ''data:'', ''http:'', ''https:'', ''file:'']. sublist p s)"
  unfolding test_iff ends_PROTOCOL_FILE_RE sublist_def prefix_def
  by (auto, metis+)

section \<open>The protocol short cut\<close>

lemma resolveSync_protocol: "test PROTOCOL_RE mid \<Longrightarrow> resolveSync h mid oa = ([], Inr mid)"
  by (simp add: resolveSync_def u_resolve_def)

text \<open>
  Claim C6. A specifier that starts with one of the protocol qualifiers \<^verbatim>\<open>node:\<close>,
  \<^verbatim>\<open>data:\<close>, \<^verbatim>\<open>http:\<close>, \<^verbatim>\<open>https:\<close> is returned by \<open>resolveSync\<close> unchanged, whatever the
  options (the base location among them) and whatever the host does: \<open>moduleResolve\<close> is
  never called, so there is no fallback search and no real-path step either.
\<close>

theorem resolveSync_protocol_qualified_unchanged:
  assumes "p \<in> set [''node:'', ''data:'', ''http:'', ''https:'']" and "prefix p mid"
  shows "resolveSync h mid oa = ([], Inr mid)"
proof -
  from assms(2) have "sublist p mid" by (rule prefix_imp_sublist)
  with assms(1) have "test PROTOCOL_RE mid" unfolding test_PROTOCOL_RE by blast
  then show ?thesis by (rule resolveSync_protocol)
qed

theorem resolveSync_protocol_qualified_unchanged_witness:
  "resolveSync (example_host [] [] (\<lambda>u. Inr ())) ''https://example.com/lib.mjs'' Null
     = ([], Inr ''https://example.com/lib.mjs'')"
  by (rule resolveSync_protocol_qualified_unchanged[of "''https:''"]) simp_all

text \<open>
  Claim C10. The protocol test is not anchored: a specifier that contains \<^verbatim>\<open>node:\<close>,
  \<^verbatim>\<open>data:\<close>, \<^verbatim>\<open>http:\<close> or \<^verbatim>\<open>https:\<close> anywhere is returned by \<open>resolveSync\<close> unchanged,
  with no call of \<open>moduleResolve\<close>; the relative specifier \<^verbatim>\<open>./a-node:b\<close> is one.
\<close>

theorem resolveSync_protocol_anywhere_unchanged:
  assumes "p \<in> set [''node:'', ''data:'', ''http:'', ''https:'']" and "sublist p mid"
  shows "resolveSync h mid oa = ([], Inr mid)"
proof -
  from assms have "test PROTOCOL_RE mid" unfolding test_PROTOCOL_RE by blast
  then show ?thesis by (rule resolveSync_protocol)
qed

theorem resolveSync_protocol_anywhere_unchanged_witness:
  "resolveSync (example_host [] [] (\<lambda>u. Inr ())) ''./a-node:b'' (Given \<lparr>opt_url = Some (Str ''file:///proj/index.mjs''), opt_conditions = None, opt_extensions = None\<rparr>)
     = ([], Inr ''./a-node:b'')"
proof (rule resolveSync_protocol_anywhere_unchanged[of "''node:''"])
  show "''node:'' \<in> set [''node:'', ''data:'', ''http:'', ''https:'']" by simp
  have "''./a-node:b'' = ''./a-'' @ ''node:'' @ ''b''" by simp
  then show "sublist ''node:'' ''./a-node:b''" unfolding sublist_def by blast
qed

section \<open>Facts about the resolver's loops\<close>

lemma try_extensions_scan:
  "try_extensions h mid pfx url cs exts = scan h url cs (map (\<lambda>e. mid @ pfx @ e) exts)"
  by (induction exts) (auto split: sum.splits option.splits prod.splits)

lemma scan_append:
  "scan h url cs (xs @ ys) =
     (case scan h url cs xs of
        (tried, Inr None) \<Rightarrow> (case scan h url cs ys of (tried', res) \<Rightarrow> (tried @ tried', res))
      | (tried, Inl err) \<Rightarrow> (tried, Inl err)
      | (tried, Inr (Some r)) \<Rightarrow> (tried, Inr (Some r)))"
  by (induction xs) (auto split: sum.splits option.splits prod.splits)

lemma try_prefixes_scan:
  "try_prefixes h mid url cs exts pfxs =
     scan h url cs (concat (map (\<lambda>pfx. map (\<lambda>e. mid @ pfx @ e) exts) pfxs))"
  by (induction pfxs) (auto simp: try_extensions_scan scan_append split: sum.splits option.splits prod.splits)

lemma scan_fst:
  "fst (scan h url cs xs) =
     takeWhile (\<lambda>c. u_tryModuleResolve h c url cs = Inr None) xs
       @ take 1 (dropWhile (\<lambda>c. u_tryModuleResolve h c url cs = Inr None) xs)"
  by (induction xs) (auto split: sum.splits option.splits prod.splits)

lemma scan_snd:
  "snd (scan h url cs xs) =
     (case dropWhile (\<lambda>c. u_tryModuleResolve h c url cs = Inr None) xs of
        [] \<Rightarrow> Inr None
      | c # _ \<Rightarrow> u_tryModuleResolve h c url cs)"
  by (induction xs) (auto split: sum.splits option.splits prod.splits)

lemma resolveSync_scan:
  assumes "\<not> test PROTOCOL_RE mid" and "mid \<notin> set (builtinModules h)" and "oa \<noteq> Null"
  shows "resolveSync h mid oa =
     (let opts = default_opts oa; url = url_of h opts;
          exts = extensions_of opts;
          sc = scan h url (conditionsSet_of opts)
                 (mid # map (\<lambda>e. mid @ e) exts @ map (\<lambda>e. mid @ ''/index'' @ e) exts)
      in (fst sc,
          case snd sc of
            Inl err \<Rightarrow> Inl err
          | Inr (Some r) \<Rightarrow> realPath_url h r
          | Inr None \<Rightarrow> Inl (not_found_error h mid url)))"
  using assms
  by (cases oa)
     (auto simp: resolveSync_def u_resolve_def Let_def try_prefixes_scan
           split: sum.splits option.splits prod.splits)

lemma resolveSync_tried:
  assumes "\<not> test PROTOCOL_RE mid" and "mid \<notin> set (builtinModules h)" and "oa \<noteq> Null"
  shows "fst (resolveSync h mid oa) =
     (let cands = mid # map (\<lambda>e. mid @ e) (extensions_of (default_opts oa))
                   @ map (\<lambda>e. mid @ ''/index'' @ e) (extensions_of (default_opts oa))
      in takeWhile (soft_miss h (default_opts oa)) cands
           @ take 1 (dropWhile (soft_miss h (default_opts oa)) cands))"
proof -
  have eq: "(\<lambda>c. u_tryModuleResolve h c (url_of h (default_opts oa)) (conditionsSet_of (default_opts oa)) = Inr None)
        = soft_miss h (default_opts oa)"
    by (simp add: soft_miss_def fun_eq_iff)
  show ?thesis
    unfolding resolveSync_scan[OF assms] Let_def fst_conv scan_fst eq ..
qed

lemma resolveSync_result:
  assumes "\<not> test PROTOCOL_RE mid" and "mid \<notin> set (builtinModules h)" and "oa \<noteq> Null"
  shows "snd (resolveSync h mid oa) =
     (let opts = default_opts oa;
          cands = mid # map (\<lambda>e. mid @ e) (extensions_of opts)
                   @ map (\<lambda>e. mid @ ''/index'' @ e) (extensions_of opts)
      in case dropWhile (soft_miss h opts) cands of
           [] \<Rightarrow> Inl (not_found_error h mid (url_of h opts))
         | c # _ \<Rightarrow>
             (case moduleResolve h c (url_of h opts) (conditionsSet_of opts) of
                Inl err \<Rightarrow> Inl err
              | Inr r \<Rightarrow> realPath_url h r))"
proof -
  let ?o = "default_opts oa"
  let ?P = "soft_miss h ?o"
  let ?cands = "mid # map (\<lambda>e. mid @ e) (extensions_of ?o) @ map (\<lambda>e. mid @ ''/index'' @ e) (extensions_of ?o)"
  have eq: "(\<lambda>c. u_tryModuleResolve h c (url_of h ?o) (conditionsSet_of ?o) = Inr None) = ?P"
    by (simp add: soft_miss_def fun_eq_iff)
  show ?thesis
  proof (cases "dropWhile ?P ?cands")
    case Nil
    then show ?thesis
      unfolding resolveSync_scan[OF assms] Let_def snd_conv scan_snd eq by simp
  next
    case (Cons c cs)
    then have "\<not> ?P c" using hd_dropWhile[of ?P ?cands] by (metis list.sel(1) list.distinct(1))
    then have ne: "u_tryModuleResolve h c (url_of h ?o) (conditionsSet_of ?o) \<noteq> Inr None"
      by (simp add: soft_miss_def)
    show ?thesis
      unfolding resolveSync_scan[OF assms] Let_def snd_conv scan_snd eq Cons
      using ne by (auto simp: u_tryModuleResolve_def split: sum.splits option.splits if_splits)
  qed
qed


lemma hard_error_not_soft:
  assumes "moduleResolve h c url cs = Inl err" and "err_code err \<notin> Some ` set NOT_FOUND_ERRORS"
  shows "u_tryModuleResolve h c url cs = Inl err"
  using assms by (auto simp: u_tryModuleResolve_def split: option.splits)

lemma not_found_class_soft:
  assumes "moduleResolve h c url cs = Inl err" and "err_code err \<in> Some ` set NOT_FOUND_ERRORS"
  shows "u_tryModuleResolve h c url cs = Inr None"
  using assms by (auto simp: u_tryModuleResolve_def split: option.splits)

text \<open>
  Claim C1. Let the specifier pass the protocol and builtin short cuts, let the options
  give no extension list (the default list applies) and let the first call of
  \<open>moduleResolve\<close> be a soft miss. Then the specifiers \<open>resolveSync\<close> passes to
  \<open>moduleResolve\<close> are, in this order, the specifier itself and then the candidates
  \<^verbatim>\<open>.mjs\<close>, \<^verbatim>\<open>.cjs\<close>, \<^verbatim>\<open>.js\<close>, \<^verbatim>\<open>.json\<close>, \<^verbatim>\<open>/index.mjs\<close>, \<^verbatim>\<open>/index.cjs\<close>, \<^verbatim>\<open>/index.js\<close>,
  \<^verbatim>\<open>/index.json\<close> up to and including the first one that is not a soft miss; the result
  comes from that candidate (its real path when the host resolved it); and an
  \<^verbatim>\<open>/index\<close> candidate is only ever tried after all four direct candidates were soft
  misses.
\<close>

theorem resolveSync_fallback_order:
  assumes "\<not> test PROTOCOL_RE mid" and "mid \<notin> set (builtinModules h)" and "oa \<noteq> Null"
    and "opt_extensions (default_opts oa) = None"
    and "soft_miss h (default_opts oa) mid"
  shows
    "let opts = default_opts oa;
         direct = [mid @ ''.mjs'', mid @ ''.cjs'', mid @ ''.js'', mid @ ''.json''];
         index = [mid @ ''/index.mjs'', mid @ ''/index.cjs'', mid @ ''/index.js'', mid @ ''/index.json''];
         tried = fst (resolveSync h mid oa)
     in tried = mid # takeWhile (soft_miss h opts) (direct @ index)
                  @ take 1 (dropWhile (soft_miss h opts) (direct @ index))
      \<and> snd (resolveSync h mid oa) =
          (case dropWhile (soft_miss h opts) (direct @ index) of
             [] \<Rightarrow> Inl (not_found_error h mid (url_of h opts))
           | c # _ \<Rightarrow>
               (case moduleResolve h c (url_of h opts) (conditionsSet_of opts) of
                  Inl err \<Rightarrow> Inl err
                | Inr r \<Rightarrow> realPath_url h r))
      \<and> (\<forall>c \<in> set index. c \<in> set tried \<longrightarrow> (\<forall>d \<in> set direct. soft_miss h opts d))"
proof -
  let ?o = "default_opts oa"
  let ?P = "soft_miss h ?o"
  let ?direct = "[mid @ ''.mjs'', mid @ ''.cjs'', mid @ ''.js'', mid @ ''.json'']"
  let ?index = "[mid @ ''/index.mjs'', mid @ ''/index.cjs'', mid @ ''/index.js'', mid @ ''/index.json'']"
  have exts: "extensions_of ?o = DEFAULT_EXTENSIONS"
    using assms(4) by (simp add: extensions_of_def)
  have cands: "mid # map (\<lambda>e. mid @ e) (extensions_of ?o) @ map (\<lambda>e. mid @ ''/index'' @ e) (extensions_of ?o)
      = mid # ?direct @ ?index"
    by (simp add: exts DEFAULT_EXTENSIONS_def)
  have tried: "fst (resolveSync h mid oa) = mid # takeWhile ?P (?direct @ ?index) @ take 1 (dropWhile ?P (?direct @ ?index))"
    unfolding resolveSync_tried[OF assms(1-3)] Let_def cands using assms(5) by simp
  have res: "snd (resolveSync h mid oa) =
          (case dropWhile ?P (?direct @ ?index) of
             [] \<Rightarrow> Inl (not_found_error h mid (url_of h ?o))
           | c # _ \<Rightarrow>
               (case moduleResolve h c (url_of h ?o) (conditionsSet_of ?o) of
                  Inl err \<Rightarrow> Inl err
                | Inr r \<Rightarrow> realPath_url h r))"
    unfolding resolveSync_result[OF assms(1-3)] Let_def cands using assms(5) by simp
  have idx: "\<forall>c \<in> set ?index. c \<in> set (fst (resolveSync h mid oa)) \<longrightarrow> (\<forall>d \<in> set ?direct. ?P d)"
    unfolding tried by (auto split: if_splits)
  show ?thesis unfolding Let_def using tried res idx by blast
qed


lemma x_host_simps:
  "builtinModules x_host = [''fs'', ''path'', ''url'', ''node:test'']"
  "moduleResolve x_host mid url cs =
     (case map_of
        [(''./x.json'', Inr ''file:///proj/x.json''), (''./x/index.js'', Inr ''file:///proj/x/index.js''),
         (''./locked.cjs'', Inl (host_error ''Error'' (Some ''EACCES'') ''permission denied''))] mid of
        Some r \<Rightarrow> r
      | None \<Rightarrow> Inl (host_error ''Error'' (Some ''ERR_MODULE_NOT_FOUND'') (''Cannot find module '' @ mid)))"
  "pathToFileURL x_host p = ''file://'' @ p"
  "url_fileURLToPath x_host l = Inr (drop 7 (toString l))"
  "realpathSync x_host p = Inr p"
  "cwd x_host = ''/proj''"
  "callFrames x_host = []"
  by (simp_all add: x_host_def example_host_def)

theorem resolveSync_fallback_order_witness:
  "resolveSync x_host ''./x'' Undefined
     = ([''./x'', ''./x.mjs'', ''./x.cjs'', ''./x.js'', ''./x.json''], Inr ''file:///proj/x.json'')"
proof -
  have 1: "\<not> test PROTOCOL_RE ''./x''" by code_simp
  have 2: "''./x'' \<notin> set (builtinModules x_host)" by (simp add: x_host_simps)
  have 3: "(Undefined :: opts arg) \<noteq> Null" by simp
  have 4: "opt_extensions (default_opts Undefined) = None" by (simp add: default_opts_def no_opts_def)
  have 5: "soft_miss x_host (default_opts Undefined) ''./x''"
    by (simp add: soft_miss_def u_tryModuleResolve_def x_host_simps host_error_def NOT_FOUND_ERRORS_def)
  show ?thesis
    using resolveSync_fallback_order[OF 1 2 3 4 5]
    by (simp add: Let_def soft_miss_def u_tryModuleResolve_def x_host_simps host_error_def
          NOT_FOUND_ERRORS_def realPath_url_def normalizeSlash_def prod_eq_iff)
qed

lemma stop_at_first:
  assumes "i < length (takeWhile P xs @ take 1 (dropWhile P xs))"
    and "\<not> P ((takeWhile P xs @ take 1 (dropWhile P xs)) ! i)"
  shows "\<exists>c rest. dropWhile P xs = c # rest
           \<and> (takeWhile P xs @ take 1 (dropWhile P xs)) ! i = c
           \<and> Suc i = length (takeWhile P xs @ take 1 (dropWhile P xs))"
proof -
  have "\<not> i < length (takeWhile P xs)"
  proof
    assume lt: "i < length (takeWhile P xs)"
    then have "(takeWhile P xs @ take 1 (dropWhile P xs)) ! i = takeWhile P xs ! i"
      by (simp add: nth_append)
    moreover have "P (takeWhile P xs ! i)"
      using lt by (metis nth_mem set_takeWhileD)
    ultimately show False using assms(2) by simp
  qed
  moreover from assms(1) have "i < length (takeWhile P xs) + length (take 1 (dropWhile P xs))"
    by simp
  ultimately obtain c rest where dw: "dropWhile P xs = c # rest" and ieq: "i = length (takeWhile P xs)"
    by (cases "dropWhile P xs") (simp_all del: dropWhile_eq_Nil_conv)
  show ?thesis unfolding ieq dw by (simp add: nth_append)
qed

text \<open>
  Claim C3. For a specifier that passes the protocol and builtin short cuts: when the
  host answers the specifier and every fallback candidate with an error of the not-found
  class, \<open>resolveSync\<close> has tried them all and throws an error with code
  \<^verbatim>\<open>ERR_MODULE_NOT_FOUND\<close> whose message names the specifier and the base location; and
  whenever an attempt fails with an error whose code is outside the not-found class,
  that error is the result, unchanged, and the attempt is the last one made.
\<close>

theorem resolveSync_not_found_or_propagated:
  assumes "\<not> test PROTOCOL_RE mid" and "mid \<notin> set (builtinModules h)" and "oa \<noteq> Null"
  shows
    "let opts = default_opts oa; url = url_of h opts; cs = conditionsSet_of opts;
         cands = mid # map (\<lambda>e. mid @ e) (extensions_of opts)
                   @ map (\<lambda>e. mid @ ''/index'' @ e) (extensions_of opts);
         tried = fst (resolveSync h mid oa);
         res = snd (resolveSync h mid oa)
     in ((\<forall>c \<in> set cands. \<exists>err. moduleResolve h c url cs = Inl err
                               \<and> err_code err \<in> Some ` set NOT_FOUND_ERRORS) \<longrightarrow>
           tried = cands
           \<and> (\<exists>e. res = Inl e \<and> err_code e = Some ''ERR_MODULE_NOT_FOUND''
                  \<and> err_message e = ''Cannot find module '' @ mid @ '' imported from '' @ toString url))
      \<and> (\<forall>i < length tried. \<forall>err.
            moduleResolve h (tried ! i) url cs = Inl err
            \<and> err_code err \<notin> Some ` set NOT_FOUND_ERRORS \<longrightarrow>
              res = Inl err \<and> Suc i = length tried)"
proof -
  let ?o = "default_opts oa"
  let ?P = "soft_miss h ?o"
  let ?url = "url_of h ?o"
  let ?cs = "conditionsSet_of ?o"
  let ?cands = "mid # map (\<lambda>e. mid @ e) (extensions_of ?o) @ map (\<lambda>e. mid @ ''/index'' @ e) (extensions_of ?o)"
  let ?tried = "fst (resolveSync h mid oa)"
  let ?res = "snd (resolveSync h mid oa)"
  have tried: "?tried = takeWhile ?P ?cands @ take 1 (dropWhile ?P ?cands)"
    using resolveSync_tried[OF assms] by (simp add: Let_def)
  have res: "?res = (case dropWhile ?P ?cands of
           [] \<Rightarrow> Inl (not_found_error h mid ?url)
         | c # _ \<Rightarrow> (case moduleResolve h c ?url ?cs of Inl err \<Rightarrow> Inl err | Inr r \<Rightarrow> realPath_url h r))"
    using resolveSync_result[OF assms] by (simp add: Let_def)
  have A: "?tried = ?cands \<and> (\<exists>e. ?res = Inl e \<and> err_code e = Some ''ERR_MODULE_NOT_FOUND''
                  \<and> err_message e = ''Cannot find module '' @ mid @ '' imported from '' @ toString ?url)"
    if all: "\<forall>c \<in> set ?cands. \<exists>err. moduleResolve h c ?url ?cs = Inl err
                               \<and> err_code err \<in> Some ` set NOT_FOUND_ERRORS"
  proof -
    have "\<forall>c \<in> set ?cands. ?P c"
      using all not_found_class_soft unfolding soft_miss_def by blast
    then have tw: "takeWhile ?P ?cands = ?cands" and dw: "dropWhile ?P ?cands = []"
      by (simp_all only: takeWhile_eq_all_conv dropWhile_eq_Nil_conv)
    show ?thesis
      unfolding tried res tw dw by (simp add: not_found_error_def new_Error_def)
  qed
  have B: "?res = Inl err \<and> Suc i = length ?tried"
    if i: "i < length ?tried" and hard: "moduleResolve h (?tried ! i) ?url ?cs = Inl err"
      "err_code err \<notin> Some ` set NOT_FOUND_ERRORS" for i err
  proof -
    have notP: "\<not> ?P (?tried ! i)"
      using hard_error_not_soft[OF hard] by (simp add: soft_miss_def)
    from stop_at_first[of i ?P ?cands] notP[unfolded tried] i[unfolded tried]
    obtain c rest where dw: "dropWhile ?P ?cands = c # rest"
      and ti: "?tried ! i = c" and len: "Suc i = length ?tried"
      unfolding tried by blast
    have "?res = Inl err" unfolding res dw using hard ti by simp
    with len show ?thesis by simp
  qed
  show ?thesis unfolding Let_def using A B by blast
qed


theorem resolveSync_not_found_or_propagated_witness:
  "fst (resolveSync x_host ''./missing'' Undefined)
     = [''./missing'', ''./missing.mjs'', ''./missing.cjs'', ''./missing.js'', ''./missing.json'',
        ''./missing/index.mjs'', ''./missing/index.cjs'', ''./missing/index.js'', ''./missing/index.json'']
   \<and> (\<exists>e. snd (resolveSync x_host ''./missing'' Undefined) = Inl e
          \<and> err_code e = Some ''ERR_MODULE_NOT_FOUND''
          \<and> err_message e = ''Cannot find module ./missing imported from file:///proj'')
   \<and> fst (resolveSync x_host ''./locked'' Undefined) = [''./locked'', ''./locked.mjs'', ''./locked.cjs'']
   \<and> snd (resolveSync x_host ''./locked'' Undefined)
       = Inl (host_error ''Error'' (Some ''EACCES'') ''permission denied'')"
proof -
  have opts: "default_opts Undefined = no_opts" by (simp add: default_opts_def)
  have exts: "extensions_of no_opts = [''.mjs'', ''.cjs'', ''.js'', ''.json'']"
    by (simp add: extensions_of_def no_opts_def DEFAULT_EXTENSIONS_def)
  have url: "url_of x_host no_opts = URL ''file:///proj''"
    by (simp add: url_of_def no_opts_def DEFAULT_URL_def x_host_simps)
  have m1: "\<not> test PROTOCOL_RE ''./missing''" by code_simp
  have m2: "''./missing'' \<notin> set (builtinModules x_host)" by (simp add: x_host_simps)
  have l1: "\<not> test PROTOCOL_RE ''./locked''" by code_simp
  have l2: "''./locked'' \<notin> set (builtinModules x_host)" by (simp add: x_host_simps)
  have 3: "(Undefined :: opts arg) \<noteq> Null" by simp
  let ?cs = "conditionsSet_of (default_opts Undefined)"
  let ?url = "url_of x_host (default_opts Undefined)"
  have ante: "\<forall>c \<in> set (''./missing'' # map (\<lambda>e. ''./missing'' @ e) (extensions_of (default_opts Undefined))
                   @ map (\<lambda>e. ''./missing'' @ ''/index'' @ e) (extensions_of (default_opts Undefined))).
      \<exists>err. moduleResolve x_host c ?url ?cs = Inl err \<and> err_code err \<in> Some ` set NOT_FOUND_ERRORS"
    by (simp add: opts exts x_host_simps host_error_def NOT_FOUND_ERRORS_def)
  have missing: "fst (resolveSync x_host ''./missing'' Undefined)
     = [''./missing'', ''./missing.mjs'', ''./missing.cjs'', ''./missing.js'', ''./missing.json'',
        ''./missing/index.mjs'', ''./missing/index.cjs'', ''./missing/index.js'', ''./missing/index.json'']
   \<and> (\<exists>e. snd (resolveSync x_host ''./missing'' Undefined) = Inl e
          \<and> err_code e = Some ''ERR_MODULE_NOT_FOUND''
          \<and> err_message e = ''Cannot find module ./missing imported from file:///proj'')"
    using mp[OF conjunct1[OF resolveSync_not_found_or_propagated[OF m1 m2 3, unfolded Let_def]] ante]
    by (simp add: opts exts url)
  have tried: "fst (resolveSync x_host ''./locked'' Undefined) = [''./locked'', ''./locked.mjs'', ''./locked.cjs'']"
    using l1 by (simp add: resolveSync_def u_resolve_def Let_def opts exts url x_host_simps
        host_error_def NOT_FOUND_ERRORS_def u_tryModuleResolve_def conditionsSet_of_def)
  have i: "2 < length (fst (resolveSync x_host ''./locked'' Undefined))" by (simp add: tried)
  have hard: "moduleResolve x_host (fst (resolveSync x_host ''./locked'' Undefined) ! 2) ?url ?cs
        = Inl (host_error ''Error'' (Some ''EACCES'') ''permission denied'')
      \<and> err_code (host_error ''Error'' (Some ''EACCES'') ''permission denied'') \<notin> Some ` set NOT_FOUND_ERRORS"
    by (simp add: tried x_host_simps host_error_def NOT_FOUND_ERRORS_def)
  have "snd (resolveSync x_host ''./locked'' Undefined)
       = Inl (host_error ''Error'' (Some ''EACCES'') ''permission denied'')"
    using conjunct2[OF resolveSync_not_found_or_propagated[OF l1 l2 3, unfolded Let_def], rule_format, OF i hard]
    by simp
  with missing tried show ?thesis by blast
qed

section \<open>The asynchronous call shapes\<close>



section \<open>The location codec on builtin names\<close>

text \<open>
  The path form of a builtin name carries no protocol: \<open>fileURLToPath\<close> returns
  \<^verbatim>\<open>fs\<close> for \<^verbatim>\<open>fs\<close>, not \<^verbatim>\<open>node:fs\<close>. And \<open>normalizeid\<close> leaves the builtin name
  \<^verbatim>\<open>node:test\<close> as it is, where \<^verbatim>\<open>node:\<close> before the name would give \<^verbatim>\<open>node:node:test\<close>.
\<close>

theorem fileURLToPath_builtin_counterexample:
  "''fs'' \<in> set (builtinModules x_host)
   \<and> fileURLToPath x_host (Str ''fs'') = Inr ''fs''
   \<and> fileURLToPath x_host (Str ''fs'') \<noteq> Inr (''node:'' @ ''fs'')
   \<and> ''node:test'' \<in> set (builtinModules x_host)
   \<and> normalizeid x_host (Str ''node:test'') = ''node:test''
   \<and> normalizeid x_host (Str ''node:test'') \<noteq> ''node:'' @ ''node:test''"
proof -
  have "test PROTOCOL_FILE_RE ''node:test''" by code_simp
  then show ?thesis by (simp add: x_host_simps normalizeSlash_def normalizeid_def)
qed

text \<open>
  Claim C7, as amended. For a builtin module name, \<open>normalizeid\<close> returns the name behind
  \<^verbatim>\<open>node:\<close>, unless the name already contains one of \<^verbatim>\<open>node:\<close>, \<^verbatim>\<open>data:\<close>, \<^verbatim>\<open>http:\<close>,
  \<^verbatim>\<open>https:\<close>, \<^verbatim>\<open>file:\<close>, in which case it returns the name as it is; \<open>fileURLToPath\<close> adds
  no protocol: for a name that does not start with \<^verbatim>\<open>file://\<close> it returns the name with its
  backslashes turned into slashes.
\<close>

theorem codec_on_builtin_names:
  assumes "mid \<in> set (builtinModules h)"
  shows "normalizeid h (Str mid)
           = (if \<exists>p \<in> set [''node:'', ''data:'', ''http:'', ''https:'', ''file:'']. sublist p mid
              then mid else ''node:'' @ mid)
         \<and> (\<not> prefix ''file://'' mid \<longrightarrow> fileURLToPath h (Str mid) = Inr (normalizeSlash mid))"
  using assms by (simp add: normalizeid_def test_PROTOCOL_FILE_RE)

theorem codec_on_builtin_names_witness:
  "normalizeid x_host (Str ''fs'') = ''node:fs'' \<and> fileURLToPath x_host (Str ''fs'') = Inr ''fs''"
proof -
  have 1: "''fs'' \<in> set (builtinModules x_host)" by (simp add: x_host_simps)
  have 2: "\<not> (\<exists>p \<in> set [''node:'', ''data:'', ''http:'', ''https:'', ''file:'']. sublist p ''fs'')"
    by code_simp
  have 3: "\<not> prefix ''file://'' ''fs''" by simp
  from codec_on_builtin_names[OF 1] 2 3 show ?thesis by (simp add: normalizeSlash_def)
qed

section \<open>The transformer\<close>

text \<open>
  Claim C5. For options whose \<^verbatim>\<open>url\<close> is a string that ends in \<^verbatim>\<open>.json\<close>,
  \<open>transformModule\<close> fulfils with \<^verbatim>\<open>export default\<close>, a space and the source text as it
  is, whatever the text holds: no import is rewritten and no \<^verbatim>\<open>import.meta.url\<close> replaced.
\<close>

theorem transformModule_json:
  assumes "opt_url opts = Some (Str u)" and "suffix ''.json'' u"
  shows "transformModule h code (Given opts) = Some (Fulfilled (''export default '' @ code))"
proof -
  from assms(2) have "u \<noteq> []" by (auto simp: suffix_def)
  with assms have "json_shortcut (Given opts)" by (simp add: json_shortcut_def)
  with assms(1) show ?thesis by simp
qed

theorem transformModule_json_witness:
  "transformModule x_host (''{'' @ [dq] @ ''self'' @ [dq] @ '': import.meta.url}'')
     (Given \<lparr>opt_url = Some (Str ''file:///proj/x.json''), opt_conditions = None, opt_extensions = None\<rparr>)
   = Some (Fulfilled (''export default {'' @ [dq] @ ''self'' @ [dq] @ '': import.meta.url}''))"
proof -
  have "''file:///proj/x.json'' = ''file:///proj/x'' @ ''.json''" by simp
  then have suf: "suffix ''.json'' ''file:///proj/x.json''" by (rule suffixI)
  have u: "opt_url \<lparr>opt_url = Some (Str ''file:///proj/x.json''), opt_conditions = None, opt_extensions = None\<rparr>
      = Some (Str ''file:///proj/x.json'')" by simp
  show ?thesis
    using transformModule_json[OF u suf, of x_host "''{'' @ [dq] @ ''self'' @ [dq] @ '': import.meta.url}''"]
    by (simp only: append_Cons append_Nil)
qed

text \<open>
  Claim C9. The claim says that \<open>transformModule\<close> can be called without options. The
  code reads \<^verbatim>\<open>opts.url\<close> first and declares no default for \<^verbatim>\<open>opts\<close>: with the options
  left out, the promise is rejected with a \<^verbatim>\<open>TypeError\<close>, for every source text.
\<close>

theorem transformModule_without_options:
  "transformModule h code Undefined = Some (Rejected (property_TypeError h ''undefined'' ''url''))"
  by simp

theorem transformModule_without_options_witness:
  "(\<exists>e. transformModule x_host ''export default 1'' Undefined = Some (Rejected e)
        \<and> err_name e = ''TypeError'')"
  using transformModule_without_options[of x_host "''export default 1''"]
  by (simp add: property_TypeError_def Let_def)

section \<open>The import rewriter\<close>

text \<open>
  Claim C2. The claim says that only text equal to a specifier is replaced. The pattern
  of the substitution pass is built from the specifiers as they are, so the dots of
  \<^verbatim>\<open>http://h/a.js\<close> match any character: the string \<^verbatim>\<open>http://h/a-js\<close>, which is no
  specifier, is replaced as well, by \<^verbatim>\<open>undefined\<close>.
\<close>

theorem resolveImports_rewrites_lookalike:
  "resolveImports x_host rewrite_example (Given no_opts)
     = Some (Fulfilled (''import '' @ [dq] @ ''http://h/a.js'' @ [dq] @ '';f('' @ [dq] @ ''undefined'' @ [dq] @ '')''))"
  by code_simp

section \<open>The evaluator\<close>

text \<open>
  Claim C8. The claim says that every occurrence of the data URL in the stack is replaced
  by the logical location. The pattern is built from the data URL as it is, and the
  base64 text of the example holds a \<^verbatim>\<open>+\<close>, which repeats the character before it: the
  pattern does not match the data URL, and the stack of the rejection still names it.
\<close>

theorem evalModule_keeps_data_url:
  "evalModule boom_host boom_example
     (Given \<lparr>opt_url = Some (Str ''file:///proj/t.mjs''), opt_conditions = None, opt_extensions = None\<rparr>)
   = Some (Rejected \<lparr>err_name = ''Error'', err_message = ''boom'', err_code = None,
       err_stack = ''Error: boom'' @ [CHR 0x0A]
         @ ''    at data:text/javascript;base64,aWYgKDI+MSkgdGhyb3cgbmV3IEVycm9yKCJib29tIik=:1:16''\<rparr>)"
  by code_simp

end
